theory Spec2Isabelle
  imports Main "HOL-Library.Sublist"
begin

section \<open>Strings\<close>

text \<open>
  A Python \<open>str\<close> is a sequence of Unicode code points; it is modelled as a list of
  natural numbers. \<open>bytes\<close> values (what is written to a socket) are modelled as
  \<^typ>\<open>string\<close>, one \<^typ>\<open>char\<close> per byte. \<open>u\<close> turns a literal of the theory into
  the \<open>str\<close> with the same code points.
\<close>

type_synonym str = "nat list"

definition u :: "string \<Rightarrow> str" where
  "u s = map of_char s"

text \<open>\<open>s.encode('latin-1', 'strict')\<close>: fails on a code point above 255.\<close>

definition encode_latin1 :: "str \<Rightarrow> string option" where
  "encode_latin1 s = (if list_all (\<lambda>c. c < 256) s then Some (map char_of s) else None)"

definition CRLF :: string where
  "CRLF = [CHR 0x0D, CHR 0x0A]"

text \<open>\<open>str(n)\<close> for an integer, as an f-string formats it.\<close>

fun str_nat :: "nat \<Rightarrow> str" where
  "str_nat n = (if n < 10 then [48 + n] else str_nat (n div 10) @ [48 + n mod 10])"

definition str_int :: "int \<Rightarrow> str" where
  "str_int i = (if i < 0 then 45 # str_nat (nat (- i)) else str_nat (nat i))"

section \<open>The interpreter and the operating system\<close>

text \<open>
  \<open>Path(__file__)\<close> in parsed form: the anchor (drive and root) and the names below it.
\<close>

record pure_path =
  anchor :: str
  names :: "str list"

text \<open>
  What the program takes from its surroundings: the Unicode tables of the interpreter
  (\<open>Py_UNICODE_ISSPACE\<close>, \<open>Py_UNICODE_TODECIMAL\<close>), the limit on the digits of an
  integer literal (\<open>sys.get_int_max_str_digits()\<close>, 0 for none), the path of the
  script, the answer of the operating system to \<open>bind\<close> on a port in range
  (an errno, or \<open>None\<close> when the address is granted), and which lone surrogates the
  error handler of standard output lets through (none under \<open>strict\<close>, U+DC80 to
  U+DCFF under \<open>surrogateescape\<close>). Standard output is a UTF-8 text stream, so that
  it encodes every other code point.
\<close>

record env =
  unicode_isspace :: "nat \<Rightarrow> bool"
  unicode_todecimal :: "nat \<Rightarrow> nat option"
  int_max_str_digits :: nat
  script_file :: pure_path
  bind_errno :: "str \<Rightarrow> int \<Rightarrow> nat option"
  stdout_surrogates :: "nat \<Rightarrow> bool"

section \<open>\<open>int(s)\<close> on a string\<close>

text \<open>
  \<open>_PyUnicode_TransformDecimalAndSpaceToASCII\<close>: an ASCII string is taken as it is;
  otherwise code points below 127 are kept, Unicode white space becomes a blank, a
  Unicode decimal digit becomes its ASCII digit, and the first other code point becomes
  \<open>?\<close> and ends the buffer.
\<close>

fun transform_rec :: "env \<Rightarrow> str \<Rightarrow> str" where
  "transform_rec e [] = []"
| "transform_rec e (c # cs) =
     (if c < 127 then c # transform_rec e cs
      else if unicode_isspace e c then 32 # transform_rec e cs
      else (case unicode_todecimal e c of
              None \<Rightarrow> [63]
            | Some d \<Rightarrow> (48 + d) # transform_rec e cs))"

definition transform_decimal_and_space :: "env \<Rightarrow> str \<Rightarrow> str" where
  "transform_decimal_and_space e s =
     (if list_all (\<lambda>c. c < 128) s then s else transform_rec e s)"

text \<open>\<open>Py_ISSPACE\<close>: blank, \<open>\t \n \v \f \r\<close>.\<close>

definition Py_ISSPACE :: "nat \<Rightarrow> bool" where
  "Py_ISSPACE c = (c = 32 \<or> (9 \<le> c \<and> c \<le> 13))"

definition is_digit :: "nat \<Rightarrow> bool" where
  "is_digit c = (48 \<le> c \<and> c \<le> 57)"

text \<open>
  The scan loop of \<open>PyLong_FromString\<close> over digits and underscores: \<open>prev\<close> is the
  character before, \<open>ds\<close> the digit values so far. \<open>None\<close> is the exit at two
  underscores in a row; otherwise the last character read, the digits and the rest.
\<close>

fun scan :: "nat \<Rightarrow> nat list \<Rightarrow> str \<Rightarrow> (nat \<times> nat list \<times> str) option" where
  "scan prev ds [] = Some (prev, ds, [])"
| "scan prev ds (c # cs) =
     (if c = 95 then (if prev = 95 then None else scan c ds cs)
      else if is_digit c then scan c (ds @ [c - 48]) cs
      else Some (prev, ds, c # cs))"

definition digits_value :: "nat list \<Rightarrow> nat" where
  "digits_value ds = foldl (\<lambda>acc d. acc * 10 + d) 0 ds"

text \<open>
  \<open>PyLong_FromString(buffer, &end, 10)\<close> followed by the test that the whole buffer was
  read; \<open>None\<close> is \<open>ValueError\<close>.
\<close>

definition PyLong_FromString :: "nat \<Rightarrow> str \<Rightarrow> int option" where
  "PyLong_FromString max_digits s =
     (let s1 = dropWhile Py_ISSPACE s;
          neg = (case s1 of c # _ \<Rightarrow> c = 45 | [] \<Rightarrow> False);
          s2 = (case s1 of c # cs \<Rightarrow> if c = 43 \<or> c = 45 then cs else s1 | [] \<Rightarrow> s1)
      in (case s2 of
            c # _ \<Rightarrow>
              if c = 95 then None
              else (case scan 0 [] s2 of
                      None \<Rightarrow> None
                    | Some (prev, ds, rest) \<Rightarrow>
                        if prev = 95 then None
                        else if 640 < length ds \<and> 0 < max_digits \<and> max_digits < length ds
                          then None
                        else if ds = [] then None
                        else if dropWhile Py_ISSPACE rest \<noteq> [] then None
                        else Some (if neg then - int (digits_value ds)
                                   else int (digits_value ds)))
          | [] \<Rightarrow> None))"

definition py_int :: "env \<Rightarrow> str \<Rightarrow> int option" where
  "py_int e s = PyLong_FromString (int_max_str_digits e) (transform_decimal_and_space e s)"

subsection \<open>The literals that \<open>int\<close> is to accept\<close>

text \<open>
  Stated apart from the parser: white space is what \<open>Py_ISSPACE\<close> accepts or Unicode
  white space above ASCII; a decimal digit is an ASCII digit or a code point above ASCII
  with a decimal value in the Unicode tables; digit groups are joined by single
  underscores. \<open>ascii_of\<close> is the ASCII character that stands for such a code point.
\<close>

definition int_space :: "env \<Rightarrow> nat \<Rightarrow> bool" where
  "int_space e c = (Py_ISSPACE c \<or> (128 \<le> c \<and> unicode_isspace e c))"

definition int_decimal :: "env \<Rightarrow> nat \<Rightarrow> nat option" where
  "int_decimal e c =
     (if c < 128 then (if is_digit c then Some (c - 48) else None)
      else if unicode_isspace e c then None
      else (case unicode_todecimal e c of
              Some d \<Rightarrow> if d < 10 then Some d else None
            | None \<Rightarrow> None))"

fun join_groups :: "str list \<Rightarrow> str" where
  "join_groups [] = []"
| "join_groups [g] = g"
| "join_groups (g # h # gs) = g @ 95 # join_groups (h # gs)"

definition ascii_of :: "env \<Rightarrow> nat \<Rightarrow> nat" where
  "ascii_of e c =
     (if c < 127 then c
      else if unicode_isspace e c then 32
      else (case unicode_todecimal e c of Some d \<Rightarrow> 48 + d | None \<Rightarrow> 63))"

section \<open>The request handler\<close>

datatype exn =
    ValueError
  | OverflowError
  | OSError nat
  | AttributeError
  | UnicodeEncodeError
  | KeyboardInterrupt

text \<open>
  The part of a \<open>BaseHTTPRequestHandler\<close> that decides what reaches the client:
  \<open>request_version\<close> as it stands when the response is produced, the class attribute
  \<open>protocol_version\<close>, the attribute \<open>_headers_buffer\<close> (\<open>None\<close> while it has not
  been set) and the writes made on \<open>wfile\<close>, in order. The bookkeeping of
  \<open>close_connection\<close> and the request log do not touch what is written and are left
  out.
\<close>

record handler =
  request_version :: str
  protocol_version :: str
  headers_buffer :: "string list option"
  wfile :: "string list"

definition buffered :: "handler \<Rightarrow> string list" where
  "buffered h = (case headers_buffer h of None \<Rightarrow> [] | Some b \<Rightarrow> b)"

text \<open>
  \<open>BaseHTTPRequestHandler.send_response_only\<close>, with the reason phrase given:
  \<open>"%s %d %s\r\n" % (self.protocol_version, code, message)\<close>.
\<close>

definition send_response_only :: "int \<Rightarrow> str \<Rightarrow> handler \<Rightarrow> exn + handler" where
  "send_response_only code message h =
     (if request_version h \<noteq> u ''HTTP/0.9'' then
        (case encode_latin1
                (protocol_version h @ u '' '' @ str_int code @ u '' '' @ message @ u CRLF) of
           None \<Rightarrow> Inl UnicodeEncodeError
         | Some line \<Rightarrow> Inr (h\<lparr>headers_buffer := Some (buffered h @ [line])\<rparr>))
      else Inr h)"

text \<open>
  \<open>BaseHTTPRequestHandler.send_header\<close>, which the subclass inherits:
  \<open>("%s: %s\r\n" % (keyword, value)).encode('latin-1', 'strict')\<close> goes to the buffer
  unless the request is HTTP/0.9.
\<close>

definition send_header :: "str \<Rightarrow> str \<Rightarrow> handler \<Rightarrow> exn + handler" where
  "send_header keyword val h =
     (if request_version h \<noteq> u ''HTTP/0.9'' then
        (case encode_latin1 (keyword @ u '': '' @ val @ u CRLF) of
           None \<Rightarrow> Inl UnicodeEncodeError
         | Some line \<Rightarrow> Inr (h\<lparr>headers_buffer := Some (buffered h @ [line])\<rparr>))
      else Inr h)"

text \<open>\<open>BaseHTTPRequestHandler.flush_headers\<close>: one write of the joined buffer.\<close>

definition flush_headers :: "handler \<Rightarrow> handler" where
  "flush_headers h =
     (case headers_buffer h of
        None \<Rightarrow> h
      | Some b \<Rightarrow> h\<lparr>headers_buffer := Some [], wfile := wfile h @ [concat b]\<rparr>)"

text \<open>
  \<open>BaseHTTPRequestHandler.end_headers\<close>, reached through \<open>super()\<close>. It appends to
  \<open>_headers_buffer\<close> without testing that the attribute exists.
\<close>

definition super_end_headers :: "handler \<Rightarrow> exn + handler" where
  "super_end_headers h =
     (if request_version h \<noteq> u ''HTTP/0.9'' then
        (case headers_buffer h of
           None \<Rightarrow> Inl AttributeError
         | Some b \<Rightarrow> Inr (flush_headers (h\<lparr>headers_buffer := Some (b @ [CRLF])\<rparr>)))
      else Inr h)"

text \<open>\<open>CORSRequestHandler.end_headers\<close>.\<close>

definition end_headers :: "handler \<Rightarrow> exn + handler" where
  "end_headers h =
     (case send_header (u ''Access-Control-Allow-Origin'') (u ''*'') h of
        Inl x \<Rightarrow> Inl x
      | Inr h1 \<Rightarrow>
     (case send_header (u ''Access-Control-Allow-Methods'') (u ''GET, POST, OPTIONS'') h1 of
        Inl x \<Rightarrow> Inl x
      | Inr h2 \<Rightarrow>
     (case send_header (u ''Access-Control-Allow-Headers'') (u ''*'') h2 of
        Inl x \<Rightarrow> Inl x
      | Inr h3 \<Rightarrow> super_end_headers h3)))"

text \<open>The three header lines, as bytes.\<close>

definition cors_lines :: "string list" where
  "cors_lines =
     [''Access-Control-Allow-Origin: *'' @ CRLF,
      ''Access-Control-Allow-Methods: GET, POST, OPTIONS'' @ CRLF,
      ''Access-Control-Allow-Headers: *'' @ CRLF]"

text \<open>
  What the inherited \<open>SimpleHTTPRequestHandler\<close> does on the handler while it answers
  one request is a sequence of calls of these methods and of writes of body bytes.
  \<open>self.end_headers()\<close> is dispatched to the subclass.
\<close>

datatype handler_call =
    Send_response_only int str
  | Send_header str str
  | End_headers
  | Flush_headers
  | Wfile_write string

fun do_call :: "handler_call \<Rightarrow> handler \<Rightarrow> exn + handler" where
  "do_call (Send_response_only code message) h = send_response_only code message h"
| "do_call (Send_header keyword val) h = send_header keyword val h"
| "do_call End_headers h = end_headers h"
| "do_call Flush_headers h = Inr (flush_headers h)"
| "do_call (Wfile_write b) h = Inr (h\<lparr>wfile := wfile h @ [b]\<rparr>)"

text \<open>The calls in order; an exception ends them, and what was written stays written.\<close>

fun run_calls :: "handler_call list \<Rightarrow> handler \<Rightarrow> handler \<times> exn option" where
  "run_calls [] h = (h, None)"
| "run_calls (c # cs) h =
     (case do_call c h of
        Inl x \<Rightarrow> (h, Some x)
      | Inr h' \<Rightarrow> run_calls cs h')"

record request =
  version :: str
  calls :: "handler_call list"

definition new_handler :: "str \<Rightarrow> handler" where
  "new_handler v =
     \<lparr>request_version = v, protocol_version = u ''HTTP/1.0'',
      headers_buffer = None, wfile = []\<rparr>"

text \<open>All bytes sent to the client for one request.\<close>

definition sent :: "handler \<Rightarrow> string" where
  "sent h = concat (wfile h)"

section \<open>The server process\<close>

text \<open>
  What the process does to the world, in order: lines printed on standard output,
  \<open>os.chdir\<close>, the socket calls of \<open>TCPServer\<close>, one entry per request answered
  (the bytes sent, and the exception that \<open>handle_error\<close> reported, if any), and the
  traceback of an exception that nothing caught.
\<close>

datatype effect =
    Print str
  | Chdir pure_path
  | Socket_open
  | Bind str int
  | Listen
  | Response "string list" "exn option"
  | Socket_close
  | Traceback exn

datatype event = Request request | Interrupt

record outcome =
  trace :: "effect list"
  exit_status :: "int option"

text \<open>
  \<open>print(s)\<close>: the UTF-8 encoder of standard output raises \<open>UnicodeEncodeError\<close> on a
  lone surrogate that the error handler does not let through. \<open>prints\<close> is a
  sequence of \<open>print\<close> statements, ended by the first that raises.
\<close>

definition is_surrogate :: "nat \<Rightarrow> bool" where
  "is_surrogate c = (55296 \<le> c \<and> c \<le> 57343)"

definition stdout_encodes :: "env \<Rightarrow> str \<Rightarrow> bool" where
  "stdout_encodes e s = list_all (\<lambda>c. is_surrogate c \<longrightarrow> stdout_surrogates e c) s"

fun prints :: "env \<Rightarrow> str list \<Rightarrow> effect list \<times> exn option" where
  "prints e [] = ([], None)"
| "prints e (s # ss) =
     (if stdout_encodes e s then
        (case prints e ss of (t, x) \<Rightarrow> (Print s # t, x))
      else ([], Some UnicodeEncodeError))"

text \<open>\<open>PurePath.parent\<close>: the path without its last name; a path with no name is its own parent.\<close>

definition parent :: "pure_path \<Rightarrow> pure_path" where
  "parent p = (if names p = [] then p else p\<lparr>names := butlast (names p)\<rparr>)"

text \<open>
  \<open>socket.bind((host, port))\<close>: a port outside 0..65535 is refused with
  \<open>OverflowError\<close> before the operating system is asked.
\<close>

definition socket_bind :: "env \<Rightarrow> str \<Rightarrow> int \<Rightarrow> exn option" where
  "socket_bind e host port =
     (if port < 0 \<or> 65535 < port then Some OverflowError
      else map_option OSError (bind_errno e host port))"

text \<open>
  \<open>TCPServer.__init__\<close>: create the socket, bind and listen; on an exception close
  the socket and raise again.
\<close>

definition TCPServer_init :: "env \<Rightarrow> str \<Rightarrow> int \<Rightarrow> effect list \<times> exn option" where
  "TCPServer_init e host port =
     (case socket_bind e host port of
        Some x \<Rightarrow> ([Socket_open, Bind host port, Socket_close], Some x)
      | None \<Rightarrow> ([Socket_open, Bind host port, Listen], None))"

definition handle_request :: "request \<Rightarrow> effect" where
  "handle_request r =
     (case run_calls (calls r) (new_handler (version r)) of
        (h, x) \<Rightarrow> Response (wfile h) x)"

text \<open>
  \<open>httpd.serve_forever()\<close> over what arrives: requests are answered one by one, an
  interrupt raises \<open>KeyboardInterrupt\<close> out of the loop. \<open>None\<close>: nothing more has
  arrived and the loop is still waiting.
\<close>

fun serve_forever :: "event list \<Rightarrow> effect list \<times> exn option" where
  "serve_forever [] = ([], None)"
| "serve_forever (Interrupt # evs) = ([], Some KeyboardInterrupt)"
| "serve_forever (Request r # evs) =
     (case serve_forever evs of (t, x) \<Rightarrow> (handle_request r # t, x))"

text \<open>The port: \<open>sys.argv[1]\<close> through \<open>int\<close>, or 8000. \<open>Inl\<close> carries the rejected argument.\<close>

definition resolve_port :: "env \<Rightarrow> str list \<Rightarrow> str + int" where
  "resolve_port e argv =
     (if 1 < length argv then
        (case py_int e (argv ! 1) of
           Some port \<Rightarrow> Inr port
         | None \<Rightarrow> Inl (argv ! 1))
      else Inr 8000)"

text \<open>The five lines printed once the server listens, and their effects when all are printed.\<close>

definition banner_lines :: "int \<Rightarrow> str list" where
  "banner_lines port =
     [9749 # u '' Coffee Roaster Digital Twin Server'',
      u ''Serving at http://localhost:'' @ str_int port,
      u ''Press Ctrl+C to stop the server'',
      [],
      u ''Open http://localhost:'' @ str_int port
        @ u '' in your web browser to use the simulator'']"

definition banner :: "int \<Rightarrow> effect list" where
  "banner port = map Print (banner_lines port)"

text \<open>
  \<open>main\<close>, run as the script with \<open>sys.argv = argv\<close> while \<open>evs\<close> arrives at the
  listener. \<open>sys.exit(1)\<close> and an exception that nothing catches end the process with
  status 1, a return from \<open>main\<close> with status 0; \<open>None\<close> is a process still serving.
  An exception raised inside the \<open>with\<close> block closes the socket on its way out.
  \<open>os.chdir\<close> is taken to succeed (the directory of the running script exists), and
  an interrupt is taken to arrive while the accept loop waits.
\<close>

definition main :: "env \<Rightarrow> str list \<Rightarrow> event list \<Rightarrow> outcome" where
  "main e argv evs =
     (case resolve_port e argv of
        Inl arg \<Rightarrow>
          (case prints e [u ''Invalid port number: '' @ arg] of
             (t, None) \<Rightarrow> \<lparr>trace = t, exit_status = Some 1\<rparr>
           | (t, Some x) \<Rightarrow> \<lparr>trace = t @ [Traceback x], exit_status = Some 1\<rparr>)
      | Inr port \<Rightarrow>
          (let webapp_dir = parent (script_file e);
               t0 = [Chdir webapp_dir]
           in (case TCPServer_init e [] port of
                 (t1, Some x) \<Rightarrow>
                   \<lparr>trace = t0 @ t1 @ [Traceback x], exit_status = Some 1\<rparr>
               | (t1, None) \<Rightarrow>
                   (case prints e (banner_lines port) of
                      (tb, Some x) \<Rightarrow>
                        \<lparr>trace = t0 @ t1 @ tb @ [Socket_close, Traceback x],
                         exit_status = Some 1\<rparr>
                    | (tb, None) \<Rightarrow>
                   (case serve_forever evs of
                      (t2, None) \<Rightarrow>
                        \<lparr>trace = t0 @ t1 @ tb @ t2, exit_status = None\<rparr>
                    | (t2, Some x) \<Rightarrow>
                        if x = KeyboardInterrupt then
                          (case prints e [10 # u ''Server stopped.''] of
                             (ts, None) \<Rightarrow>
                               \<lparr>trace = t0 @ t1 @ tb @ t2 @ ts @ [Socket_close],
                                exit_status = Some 0\<rparr>
                           | (ts, Some y) \<Rightarrow>
                               \<lparr>trace = t0 @ t1 @ tb @ t2 @ ts @ [Socket_close, Traceback y],
                                exit_status = Some 1\<rparr>)
                        else
                          \<lparr>trace = t0 @ t1 @ tb @ t2 @ [Socket_close, Traceback x],
                           exit_status = Some 1\<rparr>)))))"

text \<open>Readings of a trace and of a request.\<close>

fun bind_calls :: "effect list \<Rightarrow> (str \<times> int) list" where
  "bind_calls [] = []"
| "bind_calls (Bind host port # t) = (host, port) # bind_calls t"
| "bind_calls (x # t) = bind_calls t"

fun chdirs :: "effect list \<Rightarrow> pure_path list" where
  "chdirs [] = []"
| "chdirs (Chdir p # t) = p # chdirs t"
| "chdirs (x # t) = chdirs t"

fun responses :: "effect list \<Rightarrow> string list list" where
  "responses [] = []"
| "responses (Response w x # t) = w # responses t"
| "responses (x # t) = responses t"

definition response_bytes :: "request \<Rightarrow> string" where
  "response_bytes r = sent (fst (run_calls (calls r) (new_handler (version r))))"

section \<open>Concrete surroundings and requests\<close>

text \<open>
  A POSIX host with the script at \<open>/srv/webapp/serve.py\<close>, the default digit limit,
  NEL and NBSP as the white space above ASCII, the Arabic-Indic digits as the decimal
  digits above ASCII, port 80 refused with \<open>EACCES\<close> (13) and port 8080 taken
  (\<open>EADDRINUSE\<close>, 98), standard output with the error handler \<open>strict\<close>.
\<close>

definition example_env :: env where
  "example_env =
     \<lparr>unicode_isspace = (\<lambda>c. c = 133 \<or> c = 160),
      unicode_todecimal = (\<lambda>c. if 1632 \<le> c \<and> c \<le> 1641 then Some (c - 1632) else None),
      int_max_str_digits = 4300,
      script_file = \<lparr>anchor = u ''/'', names = [u ''srv'', u ''webapp'', u ''serve.py'']\<rparr>,
      bind_errno = (\<lambda>host port. if port = 80 then Some 13
                                 else if port = 8080 then Some 98 else None),
      stdout_surrogates = (\<lambda>c. False)\<rparr>"

text \<open>
  \<open>send_response\<close>: the status line, then the headers \<open>Server\<close> and \<open>Date\<close>.
\<close>

definition send_response_calls :: "int \<Rightarrow> str \<Rightarrow> handler_call list" where
  "send_response_calls code message =
     [Send_response_only code message,
      Send_header (u ''Server'') (u ''SimpleHTTP/0.6 Python/3.11.10''),
      Send_header (u ''Date'') (u ''Wed, 04 Nov 2026 21:09:00 GMT'')]"

text \<open>The calls of \<open>send_head\<close> and \<open>copyfile\<close> for a file of six bytes that is found.\<close>

definition file_calls :: "handler_call list" where
  "file_calls =
     send_response_calls 200 (u ''OK'')
     @ [Send_header (u ''Content-type'') (u ''text/html''),
        Send_header (u ''Content-Length'') (u ''6''),
        Send_header (u ''Last-Modified'') (u ''Wed, 04 Nov 2026 20:00:00 GMT''),
        End_headers,
        Wfile_write ''<html>'']"

text \<open>
  The calls of \<open>send_error\<close>, up to \<open>end_headers\<close> and as a whole, with a body of
  one byte.
\<close>

definition error_head :: "int \<Rightarrow> str \<Rightarrow> handler_call list" where
  "error_head code message =
     send_response_calls code message
     @ [Send_header (u ''Connection'') (u ''close''),
        Send_header (u ''Content-Type'') (u ''text/html;charset=utf-8''),
        Send_header (u ''Content-Length'') (u ''1'')]"

definition error_calls :: "int \<Rightarrow> str \<Rightarrow> handler_call list" where
  "error_calls code message = error_head code message @ [End_headers, Wfile_write ''!'']"

text \<open>\<open>GET /index.html HTTP/1.1\<close>, found.\<close>

definition get_index_11 :: request where
  "get_index_11 = \<lparr>version = u ''HTTP/1.1'', calls = file_calls\<rparr>"

text \<open>\<open>GET /does-not-exist.xyz HTTP/1.1\<close>.\<close>

definition get_missing_11 :: request where
  "get_missing_11 = \<lparr>version = u ''HTTP/1.1'', calls = error_calls 404 (u ''File not found'')\<rparr>"

text \<open>The HTTP/0.9 request \<open>GET /index.html\<close> (a request line of two words), found.\<close>

definition get_index_09 :: request where
  "get_index_09 = \<lparr>version = u ''HTTP/0.9'', calls = file_calls\<rparr>"

text \<open>
  The request line \<open>GET / FOO/1.1\<close>: \<open>parse_request\<close> answers 400 while
  \<open>request_version\<close> still holds \<open>default_request_version\<close>.
\<close>

definition bad_version_request :: request where
  "bad_version_request =
     \<lparr>version = u ''HTTP/0.9'', calls = error_calls 400 (u ''Bad request version'')\<rparr>"

section \<open>Properties\<close>

subsection \<open>Strings and the handler's methods\<close>

lemma u_append: "u (a @ b) = u a @ u b"
  by (simp add: u_def)

lemma encode_latin1_u: "encode_latin1 (u s) = Some s"
  by (simp add: encode_latin1_def u_def list_all_iff comp_def)

lemma u_inject: "u a = u b \<longleftrightarrow> a = b"
  by (simp add: u_def inj_map_eq_map inj_of_char)

lemma send_header_u:
  assumes "request_version h \<noteq> u ''HTTP/0.9''"
  shows "send_header (u k) (u v) h =
     Inr (h\<lparr>headers_buffer := Some (buffered h @ [k @ '': '' @ v @ CRLF])\<rparr>)"
proof -
  have line: "u k @ u '': '' @ u v @ u CRLF = u (k @ '': '' @ v @ CRLF)"
    by (simp only: u_append)
  show ?thesis
    unfolding send_header_def line encode_latin1_u using assms by simp
qed

lemma send_header_09:
  "request_version h = u ''HTTP/0.9'' \<Longrightarrow> send_header k v h = Inr h"
  by (simp add: send_header_def)

lemma end_headers_09:
  "request_version h = u ''HTTP/0.9'' \<Longrightarrow> end_headers h = Inr h"
  by (simp add: end_headers_def send_header_09 super_end_headers_def)

lemma end_headers_sends:
  assumes "request_version h \<noteq> u ''HTTP/0.9''"
  shows "end_headers h =
     Inr (h\<lparr>headers_buffer := Some [],
            wfile := wfile h @ [concat (buffered h @ cors_lines @ [CRLF])]\<rparr>)"
  using assms
  by (simp add: end_headers_def send_header_u super_end_headers_def flush_headers_def
      buffered_def cors_lines_def)


lemma do_call_keeps:
  assumes "do_call c h = Inr h'"
  shows "request_version h' = request_version h \<and> (\<exists>w. wfile h' = wfile h @ w)"
proof (cases c)
  case (Send_response_only code message)
  with assms show ?thesis
    by (auto simp: send_response_only_def split: if_splits option.splits)
next
  case (Send_header keyword val)
  with assms show ?thesis
    by (auto simp: send_header_def split: if_splits option.splits)
next
  case End_headers
  show ?thesis
  proof (cases "request_version h = u ''HTTP/0.9''")
    case True
    with assms End_headers show ?thesis by (simp add: end_headers_09)
  next
    case False
    with assms End_headers show ?thesis by (auto simp: end_headers_sends)
  qed
next
  case Flush_headers
  with assms show ?thesis
    by (auto simp: flush_headers_def split: option.splits)
next
  case (Wfile_write b)
  with assms show ?thesis by auto
qed

lemma run_calls_keeps:
  "request_version (fst (run_calls cs h)) = request_version h
   \<and> (\<exists>w. wfile (fst (run_calls cs h)) = wfile h @ w)"
proof (induction cs arbitrary: h)
  case Nil
  show ?case by simp
next
  case (Cons c cs)
  show ?case
  proof (cases "do_call c h")
    case (Inl x)
    then show ?thesis by simp
  next
    case (Inr h')
    from do_call_keeps [OF Inr] obtain w1
      where v: "request_version h' = request_version h" and w: "wfile h' = wfile h @ w1"
      by blast
    from Cons.IH [of h'] obtain w2
      where v2: "request_version (fst (run_calls cs h')) = request_version h'"
        and w2: "wfile (fst (run_calls cs h')) = wfile h' @ w2"
      by blast
    from Inr v w v2 w2 show ?thesis by simp
  qed
qed

lemma run_calls_append:
  "snd (run_calls pre h) = None \<Longrightarrow>
   run_calls (pre @ cs) h = run_calls cs (fst (run_calls pre h))"
proof (induction pre arbitrary: h)
  case Nil
  then show ?case by simp
next
  case (Cons c pre)
  then show ?case by (cases "do_call c h") auto
qed

subsection \<open>Responses\<close>

text \<open>
  C1, as amended. For every request that is answered while \<open>request_version\<close> is not
  \<open>HTTP/0.9\<close>, whatever status line and headers the inherited handler has sent
  before it ends the headers (so whatever the status code and the content type), the
  bytes sent to the client hold the three lines
  \<open>Access-Control-Allow-Origin: *\<close>, \<open>Access-Control-Allow-Methods: GET, POST, OPTIONS\<close>
  and \<open>Access-Control-Allow-Headers: *\<close>, directly before the blank line that ends the
  headers: they are added before the headers are finalized and sent.
\<close>

theorem cors_headers_in_response:
  assumes "version r \<noteq> u ''HTTP/0.9''"
    and "calls r = pre @ End_headers # post"
    and "snd (run_calls pre (new_handler (version r))) = None"
  shows "sublist (concat cors_lines @ CRLF) (response_bytes r)"
proof -
  let ?h = "new_handler (version r)"
  let ?h1 = "fst (run_calls pre ?h)"
  have v0: "request_version ?h = version r" by (simp add: new_handler_def)
  from run_calls_keeps [of pre ?h] v0
  have v1: "request_version ?h1 = version r" by simp
  with assms(1) have ne: "request_version ?h1 \<noteq> u ''HTTP/0.9''" by simp
  let ?h2 = "?h1\<lparr>headers_buffer := Some [],
                 wfile := wfile ?h1 @ [concat (buffered ?h1 @ cors_lines @ [CRLF])]\<rparr>"
  have "run_calls (calls r) ?h = run_calls (End_headers # post) ?h1"
    using assms(2,3) by (simp add: run_calls_append)
  also have "\<dots> = run_calls post ?h2"
    by (simp add: end_headers_sends [OF ne])
  finally have run: "run_calls (calls r) ?h = run_calls post ?h2" .
  from run_calls_keeps [of post ?h2] obtain w
    where "wfile (fst (run_calls post ?h2)) = wfile ?h2 @ w" by blast
  with run have bytes: "response_bytes r =
      concat (wfile ?h1) @ (concat (buffered ?h1) @ concat cors_lines @ CRLF) @ concat w"
    by (simp add: response_bytes_def sent_def)
  show ?thesis unfolding bytes
    by (metis append.assoc sublist_appendI)
qed

theorem cors_headers_in_response_witness:
  "version get_missing_11 \<noteq> u ''HTTP/0.9''
   \<and> calls get_missing_11 =
       error_head 404 (u ''File not found'') @ End_headers # [Wfile_write ''!'']
   \<and> snd (run_calls (error_head 404 (u ''File not found''))
            (new_handler (version get_missing_11))) = None
   \<and> sublist (concat cors_lines @ CRLF) (response_bytes get_missing_11)"
proof -
  have a: "version get_missing_11 \<noteq> u ''HTTP/0.9''"
    by (simp add: get_missing_11_def u_inject)
  have b: "calls get_missing_11 =
       error_head 404 (u ''File not found'') @ End_headers # [Wfile_write ''!'']"
    by (simp add: get_missing_11_def error_calls_def)
  have c: "snd (run_calls (error_head 404 (u ''File not found''))
            (new_handler (version get_missing_11))) = None"
    by code_simp
  from cors_headers_in_response [OF a b c] a b c show ?thesis by simp
qed

text \<open>
  C1 as stated, for every inbound request, fails: the answer to the HTTP/0.9 request
  \<open>GET /index.html\<close> is the body alone. \<open>send_header\<close> buffers nothing and
  \<open>end_headers\<close> writes nothing when \<open>request_version\<close> is \<open>HTTP/0.9\<close>.
\<close>

theorem http09_response_has_no_cors_headers:
  "response_bytes get_index_09 = ''<html>''
   \<and> \<not> sublist ''Access-Control-Allow-Origin'' (response_bytes get_index_09)"
  by code_simp

text \<open>
  C8, as amended. Whenever the headers are ended while \<open>request_version\<close> is not
  \<open>HTTP/0.9\<close>, the block written to the client is the lines the inherited handler
  had buffered, then the three CORS lines in the order of the source, then the blank
  line; the buffer is left empty.
\<close>

theorem cors_headers_follow_own_headers:
  assumes "request_version h \<noteq> u ''HTTP/0.9''"
  shows "end_headers h =
     Inr (h\<lparr>headers_buffer := Some [],
            wfile := wfile h @ [concat (buffered h @ cors_lines @ [CRLF])]\<rparr>)"
  using assms by (rule end_headers_sends)

theorem cors_headers_follow_own_headers_witness:
  "request_version (new_handler (u ''HTTP/1.1'')
      \<lparr>headers_buffer := Some [''HTTP/1.0 200 OK'' @ CRLF, ''Content-type: text/html'' @ CRLF]\<rparr>)
     \<noteq> u ''HTTP/0.9''
   \<and> end_headers (new_handler (u ''HTTP/1.1'')
      \<lparr>headers_buffer := Some [''HTTP/1.0 200 OK'' @ CRLF, ''Content-type: text/html'' @ CRLF]\<rparr>)
     = Inr (new_handler (u ''HTTP/1.1'')
        \<lparr>headers_buffer := Some [],
          wfile := [''HTTP/1.0 200 OK'' @ CRLF @ ''Content-type: text/html'' @ CRLF
                    @ ''Access-Control-Allow-Origin: *'' @ CRLF
                    @ ''Access-Control-Allow-Methods: GET, POST, OPTIONS'' @ CRLF
                    @ ''Access-Control-Allow-Headers: *'' @ CRLF
                    @ CRLF]\<rparr>)"
  using cors_headers_follow_own_headers
    [of "new_handler (u ''HTTP/1.1'')
      \<lparr>headers_buffer := Some [''HTTP/1.0 200 OK'' @ CRLF, ''Content-type: text/html'' @ CRLF]\<rparr>"]
  by (simp add: new_handler_def u_inject buffered_def cors_lines_def)

text \<open>
  C8 as stated, for every response, fails: the 400 reply to the request line
  \<open>GET / FOO/1.1\<close> is produced while \<open>request_version\<close> is still \<open>HTTP/0.9\<close>,
  and no header, of the handler or of the subclass, is sent with it.
\<close>

theorem error_reply_before_version_has_no_cors_headers:
  "response_bytes bad_version_request = ''!''
   \<and> \<not> sublist ''Access-Control-Allow-Origin'' (response_bytes bad_version_request)"
  by code_simp

subsection \<open>Integer literals\<close>

lemma transform_rec_map:
  "list_all (\<lambda>c. c < 127 \<or> unicode_isspace e c \<or> unicode_todecimal e c \<noteq> None) s \<Longrightarrow>
   transform_rec e s = map (ascii_of e) s"
  by (induction s) (auto simp: ascii_of_def)

lemma ascii_of_id: "list_all (\<lambda>c. c < 127) s \<Longrightarrow> map (ascii_of e) s = s"
  by (induction s) (auto simp: ascii_of_def)

lemma transform_map:
  assumes "list_all (\<lambda>c. c < 127 \<or> (128 \<le> c \<and> (unicode_isspace e c \<or> unicode_todecimal e c \<noteq> None))) s"
  shows "transform_decimal_and_space e s = map (ascii_of e) s"
proof (cases "list_all (\<lambda>c. c < 128) s")
  case True
  with assms have "list_all (\<lambda>c. c < 127) s"
    unfolding list_all_iff by (metis not_le)
  with True show ?thesis by (simp add: transform_decimal_and_space_def ascii_of_id)
next
  case False
  from assms have "list_all (\<lambda>c. c < 127 \<or> unicode_isspace e c \<or> unicode_todecimal e c \<noteq> None) s"
    by (auto simp: list_all_iff)
  with False show ?thesis by (simp add: transform_decimal_and_space_def transform_rec_map)
qed

lemma map_join_groups: "f 95 = 95 \<Longrightarrow> map f (join_groups gs) = join_groups (map (map f) gs)"
  by (induction gs rule: join_groups.induct) simp_all

lemma scan_digits:
  "list_all is_digit g \<Longrightarrow>
   scan prev ds (g @ r) = scan (if g = [] then prev else last g) (ds @ map (\<lambda>c. c - 48) g) r"
proof (induction g arbitrary: prev ds)
  case Nil
  then show ?case by simp
next
  case (Cons c g)
  then have "c \<noteq> 95" by (auto simp: is_digit_def)
  with Cons show ?case by simp
qed

lemma scan_stop:
  "r = [] \<or> (hd r \<noteq> 95 \<and> \<not> is_digit (hd r)) \<Longrightarrow> scan prev ds r = Some (prev, ds, r)"
  by (cases r) auto

lemma scan_join_groups:
  assumes "gs \<noteq> []" and "list_all (\<lambda>g. g \<noteq> [] \<and> list_all is_digit g) gs"
    and "r = [] \<or> (hd r \<noteq> 95 \<and> \<not> is_digit (hd r))"
  shows "scan prev ds (join_groups gs @ r)
         = Some (last (last gs), ds @ map (\<lambda>c. c - 48) (concat gs), r)"
  using assms
proof (induction gs arbitrary: prev ds rule: join_groups.induct)
  case 1
  then show ?case by simp
next
  case (2 g)
  then show ?case by (simp add: scan_digits scan_stop)
next
  case (3 g h gs)
  from 3(3) have g: "g \<noteq> []" "list_all is_digit g" by simp_all
  then have "is_digit (last g)" using last_in_set [of g] by (simp add: list_all_iff)
  then have l: "last g \<noteq> 95" by (auto simp: is_digit_def)
  have "scan prev ds (join_groups (g # h # gs) @ r)
        = scan (last g) (ds @ map (\<lambda>c. c - 48) g) (95 # join_groups (h # gs) @ r)"
    using g by (simp add: scan_digits)
  also have "\<dots> = scan 95 (ds @ map (\<lambda>c. c - 48) g) (join_groups (h # gs) @ r)"
    using l by simp
  also have "\<dots> = Some (last (last (h # gs)),
                       (ds @ map (\<lambda>c. c - 48) g) @ map (\<lambda>c. c - 48) (concat (h # gs)), r)"
    using 3(3,4) by (intro 3(1)) simp_all
  finally show ?case by simp
qed


lemma digits_value_horner: "digits_value ds = horner_sum id 10 (rev ds)"
proof -
  have "foldl (\<lambda>acc d. acc * 10 + d) a ds = horner_sum id 10 (rev ds) + a * 10 ^ length ds" for a :: nat
    by (induction ds arbitrary: a) (simp_all add: horner_sum_append algebra_simps)
  then show ?thesis by (simp add: digits_value_def)
qed

lemma join_groups_hd:
  "gs \<noteq> [] \<Longrightarrow> list_all (\<lambda>g. g \<noteq> [] \<and> list_all is_digit g) gs \<Longrightarrow>
   \<exists>d rest. join_groups gs = d # rest \<and> is_digit d"
proof (induction gs rule: join_groups.induct)
  case 1
  then show ?case by simp
next
  case (2 g)
  then show ?case by (cases g) auto
next
  case (3 g h gs)
  then show ?case by (cases g) auto
qed

lemma spaces_stop:
  "list_all Py_ISSPACE w \<Longrightarrow> w = [] \<or> (hd w \<noteq> 95 \<and> \<not> is_digit (hd w))"
  by (cases w) (auto simp: Py_ISSPACE_def is_digit_def)

lemma PyLong_FromString_accepts:
  assumes w1: "list_all Py_ISSPACE w1" and w2: "list_all Py_ISSPACE w2"
    and sg: "sg = [] \<or> sg = [43] \<or> sg = [45]"
    and gs: "gs \<noteq> []" "list_all (\<lambda>g. g \<noteq> [] \<and> list_all is_digit g) gs"
    and lim: "length (concat gs) \<le> 640 \<or> m = 0 \<or> length (concat gs) \<le> m"
  shows "PyLong_FromString m (w1 @ sg @ join_groups gs @ w2)
         = Some ((if sg = [45] then - 1 else 1)
                 * int (digits_value (map (\<lambda>c. c - 48) (concat gs))))"
proof -
  from join_groups_hd [OF gs] obtain d rest
    where body: "join_groups gs = d # rest" and d: "is_digit d" by blast
  from d have dns: "\<not> Py_ISSPACE d" and d95: "d \<noteq> 95" and d43: "d \<noteq> 43" and d45: "d \<noteq> 45"
    by (auto simp: is_digit_def Py_ISSPACE_def)
  let ?ds = "map (\<lambda>c. c - 48) (concat gs)"
  have sc: "scan 0 [] (join_groups gs @ w2) = Some (last (last gs), ?ds, w2)"
    using scan_join_groups [OF gs spaces_stop [OF w2], of 0 "[]"] by simp
  from gs have lg: "last gs \<noteq> []" and ld: "list_all is_digit (last gs)"
    using last_in_set [of gs] by (auto simp: list_all_iff)
  then have "is_digit (last (last gs))"
    using last_in_set [of "last gs"] by (simp add: list_all_iff)
  then have l95: "last (last gs) \<noteq> 95" by (auto simp: is_digit_def)
  from gs lg have cne: "concat gs \<noteq> []"
    using last_in_set [of gs] by auto
  have dw2: "dropWhile Py_ISSPACE w2 = []"
    using w2 by (simp add: list_all_iff)
  have s1: "dropWhile Py_ISSPACE (w1 @ sg @ join_groups gs @ w2) = sg @ join_groups gs @ w2"
  proof -
    have "dropWhile Py_ISSPACE (w1 @ sg @ join_groups gs @ w2)
          = dropWhile Py_ISSPACE (sg @ join_groups gs @ w2)"
      using w1 by (simp add: dropWhile_append2 list_all_iff)
    also have "\<dots> = sg @ join_groups gs @ w2"
      using sg dns by (auto simp: body Py_ISSPACE_def)
    finally show ?thesis .
  qed
  have sc': "scan 0 [] (d # rest @ w2) = Some (last (last gs), ?ds, w2)"
    using sc by (simp add: body del: scan.simps)
  have nolim: "\<not> (640 < length ?ds \<and> 0 < m \<and> m < length ?ds)"
    using lim by auto
  have dsne: "?ds \<noteq> []" using cne by simp
  from sg show ?thesis
  proof (elim disjE)
    assume e: "sg = []"
    have s1': "dropWhile Py_ISSPACE (w1 @ sg @ join_groups gs @ w2) = d # rest @ w2"
      using s1 e body by simp
    show ?thesis
      unfolding PyLong_FromString_def Let_def s1'
      using sc' l95 dsne nolim dw2 d95 d43 d45 e by (simp del: scan.simps)
  next
    assume e: "sg = [43]"
    have s1': "dropWhile Py_ISSPACE (w1 @ sg @ join_groups gs @ w2) = 43 # d # rest @ w2"
      using s1 e body by simp
    show ?thesis
      unfolding PyLong_FromString_def Let_def s1'
      using sc' l95 dsne nolim dw2 d95 e by (simp del: scan.simps)
  next
    assume e: "sg = [45]"
    have s1': "dropWhile Py_ISSPACE (w1 @ sg @ join_groups gs @ w2) = 45 # d # rest @ w2"
      using s1 e body by simp
    show ?thesis
      unfolding PyLong_FromString_def Let_def s1'
      using sc' l95 dsne nolim dw2 d95 e by (simp del: scan.simps)
  qed
qed


lemma set_join_groups: "set (join_groups gs) \<subseteq> insert 95 (\<Union>g\<in>set gs. set g)"
  by (induction gs rule: join_groups.induct) auto

lemma int_space_ascii: "int_space e c \<Longrightarrow> Py_ISSPACE (ascii_of e c)"
  by (auto simp: int_space_def ascii_of_def Py_ISSPACE_def)

lemma int_space_good:
  "int_space e c \<Longrightarrow> c < 127 \<or> (128 \<le> c \<and> (unicode_isspace e c \<or> unicode_todecimal e c \<noteq> None))"
  by (auto simp: int_space_def Py_ISSPACE_def)

lemma int_decimal_good:
  "int_decimal e c \<noteq> None \<Longrightarrow>
   c < 127 \<or> (128 \<le> c \<and> (unicode_isspace e c \<or> unicode_todecimal e c \<noteq> None))"
  by (auto simp: int_decimal_def is_digit_def split: if_splits option.splits)

lemma int_decimal_ascii:
  "int_decimal e c \<noteq> None \<Longrightarrow>
   is_digit (ascii_of e c) \<and> ascii_of e c - 48 = the (int_decimal e c)"
  by (auto simp: int_decimal_def ascii_of_def is_digit_def split: if_splits option.splits)

lemma py_int_accepts:
  assumes ws1: "list_all (int_space e) ws1" and ws2: "list_all (int_space e) ws2"
    and sg: "sg = [] \<or> sg = [43] \<or> sg = [45]"
    and gs: "gs \<noteq> []" "list_all (\<lambda>g. g \<noteq> [] \<and> list_all (\<lambda>c. int_decimal e c \<noteq> None) g) gs"
    and lim: "length (concat gs) \<le> 640 \<or> int_max_str_digits e = 0
              \<or> length (concat gs) \<le> int_max_str_digits e"
  shows "py_int e (ws1 @ sg @ join_groups gs @ ws2)
         = Some ((if sg = [45] then - 1 else 1)
                 * int (horner_sum id 10 (rev (map (the \<circ> int_decimal e) (concat gs)))))"
proof -
  let ?a = "ascii_of e"
  let ?good = "\<lambda>c. c < 127 \<or> (128 \<le> c \<and> (unicode_isspace e c \<or> unicode_todecimal e c \<noteq> None))"
  let ?gs = "map (map ?a) gs"
  have g1: "list_all ?good ws1" and g2: "list_all ?good ws2"
    using ws1 ws2 int_space_good [of e] by (auto simp: list_all_iff)
  have g3: "list_all ?good sg" using sg by auto
  have digs: "\<forall>g\<in>set gs. \<forall>c\<in>set g. int_decimal e c \<noteq> None"
    using gs(2) by (auto simp: list_all_iff)
  have g4: "list_all ?good (join_groups gs)"
    unfolding list_all_iff
  proof
    fix c assume "c \<in> set (join_groups gs)"
    with set_join_groups [of gs] have "c = 95 \<or> (\<exists>g\<in>set gs. c \<in> set g)" by auto
    then show "?good c"
    proof
      assume "c = 95" then show ?thesis by simp
    next
      assume "\<exists>g\<in>set gs. c \<in> set g"
      with digs have "int_decimal e c \<noteq> None" by blast
      then show ?thesis by (rule int_decimal_good)
    qed
  qed
  have "list_all ?good (ws1 @ sg @ join_groups gs @ ws2)"
    using g1 g2 g3 g4 by simp
  then have tr: "transform_decimal_and_space e (ws1 @ sg @ join_groups gs @ ws2)
                 = map ?a (ws1 @ sg @ join_groups gs @ ws2)"
    by (rule transform_map)
  have a95: "?a 95 = 95" by (simp add: ascii_of_def)
  have asg: "map ?a sg = sg" using sg by (auto simp: ascii_of_def)
  have shape: "map ?a (ws1 @ sg @ join_groups gs @ ws2)
               = map ?a ws1 @ sg @ join_groups ?gs @ map ?a ws2"
    using a95 by (simp add: asg map_join_groups [of "ascii_of e"])
  have w1: "list_all Py_ISSPACE (map ?a ws1)" and w2: "list_all Py_ISSPACE (map ?a ws2)"
    using ws1 ws2 int_space_ascii [of e] by (auto simp: list_all_iff)
  have gne: "?gs \<noteq> []" using gs(1) by simp
  have gd: "list_all (\<lambda>g. g \<noteq> [] \<and> list_all is_digit g) ?gs"
    using gs(2) int_decimal_ascii [of e] by (auto simp: list_all_iff)
  have len: "length (concat ?gs) = length (concat gs)"
    by (simp add: map_concat [symmetric])
  have vals: "map (\<lambda>c. c - 48) (concat ?gs) = map (the \<circ> int_decimal e) (concat gs)"
  proof -
    have "map (\<lambda>c. c - 48) (concat ?gs) = map (\<lambda>c. ?a c - 48) (concat gs)"
      by (simp add: map_concat [symmetric] comp_def)
    also have "\<dots> = map (the \<circ> int_decimal e) (concat gs)"
      using digs int_decimal_ascii [of e] by (auto intro!: map_cong)
    finally show ?thesis .
  qed
  from lim len have lim': "length (concat ?gs) \<le> 640 \<or> int_max_str_digits e = 0
              \<or> length (concat ?gs) \<le> int_max_str_digits e" by simp
  show ?thesis
    unfolding py_int_def tr shape
    by (simp only: PyLong_FromString_accepts [OF w1 w2 sg gne gd lim'] vals digits_value_horner)
qed

lemma py_int_over_limit:
  assumes g: "list_all is_digit g"
    and n: "640 < length g" "0 < int_max_str_digits e" "int_max_str_digits e < length g"
  shows "py_int e g = None"
proof -
  from n have ne: "g \<noteq> []" by auto
  then obtain d rest where body: "g = d # rest" by (cases g) auto
  with g have d: "is_digit d" by simp
  then have dns: "\<not> Py_ISSPACE d" and d95: "d \<noteq> 95" and d43: "d \<noteq> 43" and d45: "d \<noteq> 45"
    by (auto simp: is_digit_def Py_ISSPACE_def)
  from g have "list_all (\<lambda>c. c < 128) g" by (auto simp: list_all_iff is_digit_def)
  then have tr: "transform_decimal_and_space e g = g"
    by (simp add: transform_decimal_and_space_def)
  have "scan 0 [] (g @ []) = scan (last g) ([] @ map (\<lambda>c. c - 48) g) []"
    using scan_digits [OF g, of 0 "[]" "[]"] ne by simp
  then have sc: "scan 0 [] (d # rest) = Some (last g, map (\<lambda>c. c - 48) g, [])"
    by (simp add: body del: scan.simps) simp
  have s1: "dropWhile Py_ISSPACE g = d # rest" using dns by (simp add: body)
  show ?thesis
    unfolding py_int_def tr PyLong_FromString_def Let_def s1
    using sc n d95 d43 d45 by (simp del: scan.simps)
qed

subsection \<open>The process\<close>

lemma stdout_encodes_append:
  "stdout_encodes e (a @ b) = (stdout_encodes e a \<and> stdout_encodes e b)"
  by (simp add: stdout_encodes_def)

lemma stdout_encodes_ascii: "list_all (\<lambda>c. c < 256) s \<Longrightarrow> stdout_encodes e s"
  by (auto simp: stdout_encodes_def is_surrogate_def list_all_iff)

lemma stdout_encodes_u: "stdout_encodes e (u s)"
  by (rule stdout_encodes_ascii) (simp add: u_def list_all_iff)

lemma str_nat_ascii: "list_all (\<lambda>c. c < 256) (str_nat n)"
proof (induction n rule: str_nat.induct)
  case (1 n)
  show ?case
  proof (cases "n < 10")
    case True
    then show ?thesis by (subst str_nat.simps) simp
  next
    case False
    with 1 show ?thesis by (subst str_nat.simps) simp
  qed
qed

lemma stdout_encodes_str_int: "stdout_encodes e (str_int i)"
  by (rule stdout_encodes_ascii) (simp add: str_int_def str_nat_ascii del: str_nat.simps)

lemma prints_encodable:
  "list_all (stdout_encodes e) ss \<Longrightarrow> prints e ss = (map Print ss, None)"
  by (induction ss) simp_all

lemma prints_banner: "prints e (banner_lines port) = (banner port, None)"
  unfolding banner_def
  by (rule prints_encodable)
     (simp add: banner_lines_def stdout_encodes_append stdout_encodes_u stdout_encodes_str_int,
      simp add: stdout_encodes_def is_surrogate_def u_def)

lemma prints_stop:
  "prints e [10 # u ''Server stopped.''] = ([Print (10 # u ''Server stopped.'')], None)"
  by (simp add: stdout_encodes_def is_surrogate_def u_def)

lemma prints_invalid:
  "prints e [u ''Invalid port number: '' @ a]
   = (if stdout_encodes e a then ([Print (u ''Invalid port number: '' @ a)], None)
      else ([], Some UnicodeEncodeError))"
  by (simp add: stdout_encodes_append stdout_encodes_u)

lemma main_invalid:
  "resolve_port e argv = Inl a \<Longrightarrow>
   main e argv evs =
     \<lparr>trace = (if stdout_encodes e a then [Print (u ''Invalid port number: '' @ a)]
               else [Traceback UnicodeEncodeError]),
      exit_status = Some 1\<rparr>"
  by (simp add: main_def prints_invalid del: prints.simps)

lemma main_bind_raises:
  "resolve_port e argv = Inr p \<Longrightarrow> socket_bind e [] p = Some x \<Longrightarrow>
   main e argv evs =
     \<lparr>trace = [Chdir (parent (script_file e)), Socket_open, Bind [] p, Socket_close, Traceback x],
      exit_status = Some 1\<rparr>"
  by (simp add: main_def TCPServer_init_def)

lemma main_serving:
  "resolve_port e argv = Inr p \<Longrightarrow> socket_bind e [] p = None \<Longrightarrow>
   main e argv evs =
     (case serve_forever evs of
        (t2, None) \<Rightarrow>
          \<lparr>trace = [Chdir (parent (script_file e)), Socket_open, Bind [] p, Listen]
                   @ banner p @ t2,
           exit_status = None\<rparr>
      | (t2, Some x) \<Rightarrow>
          if x = KeyboardInterrupt then
            \<lparr>trace = [Chdir (parent (script_file e)), Socket_open, Bind [] p, Listen]
                     @ banner p @ t2 @ [Print (10 # u ''Server stopped.''), Socket_close],
             exit_status = Some 0\<rparr>
          else
            \<lparr>trace = [Chdir (parent (script_file e)), Socket_open, Bind [] p, Listen]
                     @ banner p @ t2 @ [Socket_close, Traceback x],
             exit_status = Some 1\<rparr>)"
  by (simp add: main_def TCPServer_init_def prints_banner prints_stop del: prints.simps
      split: prod.splits option.splits)

lemma resolve_port_arg:
  "1 < length argv \<Longrightarrow>
   resolve_port e argv = (case py_int e (argv ! 1) of Some p \<Rightarrow> Inr p | None \<Rightarrow> Inl (argv ! 1))"
  by (simp add: resolve_port_def)

lemma resolve_port_default: "length argv \<le> 1 \<Longrightarrow> resolve_port e argv = Inr 8000"
  by (simp add: resolve_port_def)

lemma serve_forever_interrupt:
  "serve_forever (map Request rs @ Interrupt # later) = (map handle_request rs, Some KeyboardInterrupt)"
  by (induction rs) simp_all

lemma chdirs_append: "chdirs (a @ b) = chdirs a @ chdirs b"
  by (induction a rule: chdirs.induct) simp_all

lemma chdirs_serve_forever: "chdirs (fst (serve_forever evs)) = []"
  by (induction evs rule: serve_forever.induct)
     (auto simp: handle_request_def split: prod.splits)

lemma chdirs_prints: "chdirs (map Print ss) = []"
  by (induction ss) simp_all

lemma chdirs_banner: "chdirs (banner p) = []"
  by (simp add: banner_def chdirs_prints)

lemma bind_calls_append: "bind_calls (a @ b) = bind_calls a @ bind_calls b"
  by (induction a rule: bind_calls.induct) simp_all


lemmas int_defs =
  py_int_def transform_decimal_and_space_def PyLong_FromString_def Py_ISSPACE_def
  is_digit_def digits_value_def u_def




text \<open>
  C3. When the argument parses as an integer below 0 or above 65535, \<open>bind\<close> refuses
  the port with \<open>OverflowError\<close>, the socket is closed, nothing catches the exception:
  the traceback is reported, the exit status is 1, and no request is answered.
\<close>

theorem port_out_of_range_fails:
  assumes "1 < length argv" and "py_int e (argv ! 1) = Some p" and "p < 0 \<or> 65535 < p"
  shows "main e argv evs =
           \<lparr>trace = [Chdir (parent (script_file e)), Socket_open, Bind [] p, Socket_close,
                     Traceback OverflowError],
            exit_status = Some 1\<rparr>
   \<and> responses (trace (main e argv evs)) = []"
proof -
  from assms(1,2) have r: "resolve_port e argv = Inr p" by (simp add: resolve_port_arg)
  from assms(3) have b: "socket_bind e [] p = Some OverflowError" by (auto simp: socket_bind_def)
  from main_bind_raises [OF r b] show ?thesis by simp
qed

theorem port_out_of_range_fails_witness:
  "1 < length [u ''serve.py'', u ''70000'']
   \<and> py_int example_env ([u ''serve.py'', u ''70000''] ! 1) = Some 70000
   \<and> ((70000::int) < 0 \<or> 65535 < (70000::int))
   \<and> main example_env [u ''serve.py'', u ''70000''] [Request get_index_11] =
        \<lparr>trace = [Chdir \<lparr>anchor = u ''/'', names = [u ''srv'', u ''webapp'']\<rparr>,
                  Socket_open, Bind [] 70000, Socket_close, Traceback OverflowError],
         exit_status = Some 1\<rparr>"
proof -
  have a: "1 < length [u ''serve.py'', u ''70000'']" by simp
  have b: "py_int example_env ([u ''serve.py'', u ''70000''] ! 1) = Some 70000"
    by (simp add: int_defs)
  have c: "(70000::int) < 0 \<or> 65535 < (70000::int)" by simp
  from port_out_of_range_fails [OF a b c, of "[Request get_index_11]"] a b c
  show ?thesis by (simp add: example_env_def parent_def)
qed


lemma bind_calls_serve_forever: "bind_calls (fst (serve_forever evs)) = []"
  by (induction evs rule: serve_forever.induct)
     (auto simp: handle_request_def split: prod.splits)

lemma bind_calls_prints: "bind_calls (map Print ss) = []"
  by (induction ss) simp_all

lemma bind_calls_banner: "bind_calls (banner p) = []"
  by (simp add: banner_def bind_calls_prints)

lemma trace_of_valid_port:
  assumes "resolve_port e argv = Inr p"
  shows "\<exists>rest. trace (main e argv evs)
            = Chdir (parent (script_file e)) # Socket_open # Bind [] p # rest
          \<and> chdirs rest = [] \<and> bind_calls rest = []
          \<and> (socket_bind e [] p = None \<longrightarrow> hd rest = Listen)"
proof (cases "socket_bind e [] p")
  case (Some x)
  from main_bind_raises [OF assms Some] Some show ?thesis by simp
next
  case None
  obtain t2 x where sf: "serve_forever evs = (t2, x)" by (cases "serve_forever evs")
  from chdirs_serve_forever [of evs] bind_calls_serve_forever [of evs] sf
  have "chdirs t2 = []" and "bind_calls t2 = []" by simp_all
  with main_serving [OF assms None] sf show ?thesis
    by (cases x)
       (simp_all add: chdirs_append chdirs_banner bind_calls_append bind_calls_banner)
qed

text \<open>
  C6. Whenever the port is resolved, the first thing the process does, before the
  socket is created, is \<open>os.chdir\<close> to the parent of the script's path, which for a
  path ending in the script's name is the directory holding it; whatever arrives later,
  the working directory is not changed again.
\<close>

theorem chdir_first_and_once:
  assumes "resolve_port e argv = Inr p"
  shows "trace (main e argv evs) \<noteq> []
   \<and> hd (trace (main e argv evs)) = Chdir (parent (script_file e))
   \<and> chdirs (tl (trace (main e argv evs))) = []
   \<and> parent \<lparr>anchor = a, names = ds @ [f]\<rparr> = \<lparr>anchor = a, names = ds\<rparr>"
proof -
  from trace_of_valid_port [OF assms, of evs] obtain rest
    where "trace (main e argv evs)
            = Chdir (parent (script_file e)) # Socket_open # Bind [] p # rest"
      and "chdirs rest = []"
    by blast
  then show ?thesis by (simp add: parent_def)
qed

theorem chdir_first_and_once_witness:
  "resolve_port example_env [u ''serve.py'', u ''9000''] = Inr 9000
   \<and> hd (trace (main example_env [u ''serve.py'', u ''9000'']
                 [Request get_index_11, Request get_missing_11]))
       = Chdir \<lparr>anchor = u ''/'', names = [u ''srv'', u ''webapp'']\<rparr>
   \<and> chdirs (tl (trace (main example_env [u ''serve.py'', u ''9000'']
                 [Request get_index_11, Request get_missing_11]))) = []"
proof -
  have a: "resolve_port example_env [u ''serve.py'', u ''9000''] = Inr 9000"
    by (simp add: resolve_port_def int_defs)
  from chdir_first_and_once [OF a, of "[Request get_index_11, Request get_missing_11]"] a
  show ?thesis by (simp add: example_env_def parent_def)
qed

text \<open>
  C4. With no argument after the program name the resolved port is 8000; and whatever
  port is resolved, the one call of \<open>bind\<close> is made with the empty host and that port,
  and when it is granted the socket listens.
\<close>

theorem default_port_and_bind_address:
  "(length argv \<le> 1 \<longrightarrow> resolve_port e argv = Inr 8000)
   \<and> (resolve_port e argv = Inr p \<longrightarrow>
        bind_calls (trace (main e argv evs)) = [([], p)]
        \<and> (socket_bind e [] p = None \<longrightarrow>
             take 4 (trace (main e argv evs))
               = [Chdir (parent (script_file e)), Socket_open, Bind [] p, Listen]))"
proof (intro conjI impI)
  assume "length argv \<le> 1"
  then show "resolve_port e argv = Inr 8000" by (rule resolve_port_default)
next
  assume r: "resolve_port e argv = Inr p"
  from trace_of_valid_port [OF r, of evs]
  show "bind_calls (trace (main e argv evs)) = [([], p)]" by auto
next
  assume r: "resolve_port e argv = Inr p" and b: "socket_bind e [] p = None"
  obtain t2 x where sf: "serve_forever evs = (t2, x)" by (cases "serve_forever evs")
  with main_serving [OF r b]
  show "take 4 (trace (main e argv evs))
          = [Chdir (parent (script_file e)), Socket_open, Bind [] p, Listen]"
    by (cases x) simp_all
qed

theorem default_port_and_bind_address_witness:
  "length [u ''serve.py''] \<le> 1
   \<and> resolve_port example_env [u ''serve.py''] = Inr 8000
   \<and> socket_bind example_env [] 8000 = None
   \<and> bind_calls (trace (main example_env [u ''serve.py''] [Request get_index_11]))
       = [([], 8000)]
   \<and> take 4 (trace (main example_env [u ''serve.py''] [Request get_index_11]))
       = [Chdir \<lparr>anchor = u ''/'', names = [u ''srv'', u ''webapp'']\<rparr>,
          Socket_open, Bind [] 8000, Listen]"
proof -
  have a: "length [u ''serve.py''] \<le> 1" by simp
  have b: "socket_bind example_env [] 8000 = None"
    by (simp add: socket_bind_def example_env_def)
  from default_port_and_bind_address
         [of "[u ''serve.py'']" example_env 8000 "[Request get_index_11]"] a b
  show ?thesis by (simp add: example_env_def parent_def)
qed

text \<open>
  C5. When the operating system refuses \<open>bind\<close> on the resolved port (the port is
  taken, or the process may not bind it), the \<open>OSError\<close> is reported as a traceback
  and the process ends with status 1, after exactly one call of \<open>bind\<close>, on the
  resolved port: no retry and no other port.
\<close>

theorem bind_error_ends_process:
  assumes "resolve_port e argv = Inr p" and "0 \<le> p" and "p \<le> 65535"
    and "bind_errno e [] p = Some errno"
  shows "main e argv evs =
           \<lparr>trace = [Chdir (parent (script_file e)), Socket_open, Bind [] p, Socket_close,
                     Traceback (OSError errno)],
            exit_status = Some 1\<rparr>
   \<and> bind_calls (trace (main e argv evs)) = [([], p)]"
proof -
  from assms(2-4) have "socket_bind e [] p = Some (OSError errno)"
    by (simp add: socket_bind_def)
  from main_bind_raises [OF assms(1) this] show ?thesis by simp
qed

theorem bind_error_ends_process_witness:
  "resolve_port example_env [u ''serve.py'', u ''8080''] = Inr 8080
   \<and> (0::int) \<le> 8080 \<and> (8080::int) \<le> 65535
   \<and> bind_errno example_env [] 8080 = Some 98
   \<and> main example_env [u ''serve.py'', u ''8080''] [Request get_index_11] =
        \<lparr>trace = [Chdir \<lparr>anchor = u ''/'', names = [u ''srv'', u ''webapp'']\<rparr>,
                  Socket_open, Bind [] 8080, Socket_close, Traceback (OSError 98)],
         exit_status = Some 1\<rparr>"
proof -
  have a: "resolve_port example_env [u ''serve.py'', u ''8080''] = Inr 8080"
    by (simp add: resolve_port_def int_defs)
  have b: "bind_errno example_env [] 8080 = Some 98" by (simp add: example_env_def)
  from bind_error_ends_process [OF a _ _ b, of "[Request get_index_11]"] a b
  show ?thesis by (simp add: example_env_def parent_def)
qed

text \<open>
  C7. After a successful start, an interrupt ends the accept loop: the requests that
  arrived before it are answered, none after it, the line \<open>Server stopped.\<close> is
  printed (after an empty line), the socket is closed and the exit status is 0.
\<close>

theorem interrupt_stops_server_with_status_0:
  assumes "resolve_port e argv = Inr p" and "socket_bind e [] p = None"
  shows "main e argv (map Request rs @ Interrupt # later) =
           \<lparr>trace = [Chdir (parent (script_file e)), Socket_open, Bind [] p, Listen]
                    @ banner p @ map handle_request rs
                    @ [Print (10 # u ''Server stopped.''), Socket_close],
            exit_status = Some 0\<rparr>"
  using main_serving [OF assms] by (simp add: serve_forever_interrupt)

theorem interrupt_stops_server_with_status_0_witness:
  "resolve_port example_env [u ''serve.py''] = Inr 8000
   \<and> socket_bind example_env [] 8000 = None
   \<and> main example_env [u ''serve.py'']
        (map Request [get_index_11] @ Interrupt # [Request get_missing_11]) =
        \<lparr>trace = [Chdir (parent (script_file example_env)), Socket_open, Bind [] 8000, Listen]
                 @ banner 8000 @ map handle_request [get_index_11]
                 @ [Print (10 # u ''Server stopped.''), Socket_close],
         exit_status = Some 0\<rparr>"
proof -
  have a: "resolve_port example_env [u ''serve.py''] = Inr 8000"
    by (simp add: resolve_port_def)
  have b: "socket_bind example_env [] 8000 = None"
    by (simp add: socket_bind_def example_env_def)
  from interrupt_stops_server_with_status_0
         [OF a b, of "[get_index_11]" "[Request get_missing_11]"] a b
  show ?thesis by simp
qed


lemma resolve_port_Inr:
  "\<not> (1 < length argv \<and> py_int e (argv ! 1) = None) \<Longrightarrow> \<exists>p. resolve_port e argv = Inr p"
  by (auto simp: resolve_port_def split: option.splits)

text \<open>
  C9. Two invocations whose \<open>sys.argv[1]\<close> is equal, or absent in both, resolve the
  same port or reject alike, and the whole run is the same: the program name and any
  further argument are ignored.
\<close>

theorem port_depends_only_on_first_argument:
  assumes "(1 < length argv \<and> 1 < length argv' \<and> argv ! 1 = argv' ! 1)
           \<or> (length argv \<le> 1 \<and> length argv' \<le> 1)"
  shows "resolve_port e argv = resolve_port e argv' \<and> main e argv evs = main e argv' evs"
proof -
  from assms have r: "resolve_port e argv = resolve_port e argv'"
  proof
    assume "1 < length argv \<and> 1 < length argv' \<and> argv ! 1 = argv' ! 1"
    then show ?thesis by (simp only: resolve_port_arg)
  next
    assume "length argv \<le> 1 \<and> length argv' \<le> 1"
    then show ?thesis by (simp only: resolve_port_default)
  qed
  then show ?thesis by (simp add: main_def)
qed

theorem port_depends_only_on_first_argument_witness:
  "((1 < length [u ''serve.py'', u ''9000'', u ''--debug'']
      \<and> 1 < length [u ''./serve.py'', u ''9000'']
      \<and> [u ''serve.py'', u ''9000'', u ''--debug''] ! 1 = [u ''./serve.py'', u ''9000''] ! 1)
     \<or> (length [u ''serve.py'', u ''9000'', u ''--debug''] \<le> 1
         \<and> length [u ''./serve.py'', u ''9000''] \<le> 1))
   \<and> resolve_port example_env [u ''serve.py'', u ''9000'', u ''--debug''] = Inr 9000
   \<and> resolve_port example_env [u ''./serve.py'', u ''9000''] = Inr 9000
   \<and> main example_env [u ''serve.py'', u ''9000'', u ''--debug''] [Interrupt]
       = main example_env [u ''./serve.py'', u ''9000''] [Interrupt]"
proof -
  have a: "(1 < length [u ''serve.py'', u ''9000'', u ''--debug'']
      \<and> 1 < length [u ''./serve.py'', u ''9000'']
      \<and> [u ''serve.py'', u ''9000'', u ''--debug''] ! 1 = [u ''./serve.py'', u ''9000''] ! 1)
     \<or> (length [u ''serve.py'', u ''9000'', u ''--debug''] \<le> 1
         \<and> length [u ''./serve.py'', u ''9000''] \<le> 1)"
    by simp
  have b: "resolve_port example_env [u ''./serve.py'', u ''9000''] = Inr 9000"
    by (simp add: resolve_port_def int_defs)
  from port_depends_only_on_first_argument [OF a, of example_env "[Interrupt]"] a b
  show ?thesis by simp
qed

text \<open>
  C10. The process ends on the invalid-port path (the message alone, or the traceback
  of its \<open>print\<close>, and status 1) exactly when \<open>sys.argv[1]\<close> is present and \<open>int\<close>
  raises \<open>ValueError\<close> on it. Every argument made of white space, an optional sign,
  groups of decimal digits joined by single underscores and white space again is
  accepted, within the digit limit, with the value of its digits; so are \<open>' 8000 '\<close>,
  \<open>'+8000'\<close> and \<open>'8_000'\<close>, as port 8000. The empty string, \<open>'abc'\<close>, \<open>'+ 8'\<close>,
  \<open>'8 000'\<close>, \<open>'_8'\<close>, \<open>'8_'\<close>, \<open>'8__0'\<close>, \<open>'--5'\<close>, \<open>'80.0'\<close> and a run of
  digits beyond the digit limit are rejected. On the invalid-port path the working
  directory is not changed and no socket is created or bound.
\<close>

theorem invalid_port_exit_iff_int_raises:
  "(((trace (main e argv evs) = [Print (u ''Invalid port number: '' @ argv ! 1)]
       \<or> trace (main e argv evs) = [Traceback UnicodeEncodeError])
      \<and> exit_status (main e argv evs) = Some 1)
     = (1 < length argv \<and> py_int e (argv ! 1) = None))
   \<and> (list_all (int_space e) ws1 \<and> list_all (int_space e) ws2
        \<and> (sg = [] \<or> sg = [43] \<or> sg = [45])
        \<and> gs \<noteq> [] \<and> list_all (\<lambda>g. g \<noteq> [] \<and> list_all (\<lambda>c. int_decimal e c \<noteq> None) g) gs
        \<and> (length (concat gs) \<le> 640 \<or> int_max_str_digits e = 0
             \<or> length (concat gs) \<le> int_max_str_digits e)
       \<longrightarrow> resolve_port e [prog, ws1 @ sg @ join_groups gs @ ws2]
            = Inr ((if sg = [45] then - 1 else 1)
                   * int (horner_sum id 10 (rev (map (the \<circ> int_decimal e) (concat gs))))))
   \<and> resolve_port e [prog, u '' 8000 ''] = Inr 8000
   \<and> resolve_port e [prog, u ''+8000''] = Inr 8000
   \<and> resolve_port e [prog, u ''8_000''] = Inr 8000
   \<and> resolve_port e [prog, []] = Inl []
   \<and> resolve_port e [prog, u ''abc''] = Inl (u ''abc'')
   \<and> resolve_port e [prog, u ''+ 8''] = Inl (u ''+ 8'')
   \<and> resolve_port e [prog, u ''8 000''] = Inl (u ''8 000'')
   \<and> resolve_port e [prog, u ''_8''] = Inl (u ''_8'')
   \<and> resolve_port e [prog, u ''8_''] = Inl (u ''8_'')
   \<and> resolve_port e [prog, u ''8__0''] = Inl (u ''8__0'')
   \<and> resolve_port e [prog, u ''--5''] = Inl (u ''--5'')
   \<and> resolve_port e [prog, u ''80.0''] = Inl (u ''80.0'')
   \<and> (list_all is_digit g \<and> 640 < length g
        \<and> 0 < int_max_str_digits e \<and> int_max_str_digits e < length g
       \<longrightarrow> resolve_port e [prog, g] = Inl g)
   \<and> (1 < length argv \<and> py_int e (argv ! 1) = None \<longrightarrow>
        chdirs (trace (main e argv evs)) = []
        \<and> bind_calls (trace (main e argv evs)) = []
        \<and> Socket_open \<notin> set (trace (main e argv evs)))"
proof (intro conjI impI)
  show "((trace (main e argv evs) = [Print (u ''Invalid port number: '' @ argv ! 1)]
       \<or> trace (main e argv evs) = [Traceback UnicodeEncodeError])
      \<and> exit_status (main e argv evs) = Some 1)
     = (1 < length argv \<and> py_int e (argv ! 1) = None)"
  proof
    assume m: "(trace (main e argv evs) = [Print (u ''Invalid port number: '' @ argv ! 1)]
       \<or> trace (main e argv evs) = [Traceback UnicodeEncodeError])
      \<and> exit_status (main e argv evs) = Some 1"
    show "1 < length argv \<and> py_int e (argv ! 1) = None"
    proof (rule ccontr)
      assume "\<not> (1 < length argv \<and> py_int e (argv ! 1) = None)"
      then obtain p where "resolve_port e argv = Inr p"
        using resolve_port_Inr by blast
      from trace_of_valid_port [OF this, of evs] m show False by auto
    qed
  next
    assume "1 < length argv \<and> py_int e (argv ! 1) = None"
    then have "resolve_port e argv = Inl (argv ! 1)" by (simp add: resolve_port_arg)
    from main_invalid [OF this, of evs]
    show "(trace (main e argv evs) = [Print (u ''Invalid port number: '' @ argv ! 1)]
       \<or> trace (main e argv evs) = [Traceback UnicodeEncodeError])
      \<and> exit_status (main e argv evs) = Some 1"
      by simp
  qed
next
  assume h: "list_all (int_space e) ws1 \<and> list_all (int_space e) ws2
        \<and> (sg = [] \<or> sg = [43] \<or> sg = [45])
        \<and> gs \<noteq> [] \<and> list_all (\<lambda>g. g \<noteq> [] \<and> list_all (\<lambda>c. int_decimal e c \<noteq> None) g) gs
        \<and> (length (concat gs) \<le> 640 \<or> int_max_str_digits e = 0
             \<or> length (concat gs) \<le> int_max_str_digits e)"
  then have "py_int e (ws1 @ sg @ join_groups gs @ ws2)
         = Some ((if sg = [45] then - 1 else 1)
                 * int (horner_sum id 10 (rev (map (the \<circ> int_decimal e) (concat gs)))))"
    by (intro py_int_accepts) simp_all
  then show "resolve_port e [prog, ws1 @ sg @ join_groups gs @ ws2]
            = Inr ((if sg = [45] then - 1 else 1)
                   * int (horner_sum id 10 (rev (map (the \<circ> int_decimal e) (concat gs)))))"
    by (simp add: resolve_port_def)
next
  show "resolve_port e [prog, u '' 8000 ''] = Inr 8000"
    by (simp add: resolve_port_def int_defs)
next
  show "resolve_port e [prog, u ''+8000''] = Inr 8000"
    by (simp add: resolve_port_def int_defs)
next
  show "resolve_port e [prog, u ''8_000''] = Inr 8000"
    by (simp add: resolve_port_def int_defs)
next
  show "resolve_port e [prog, []] = Inl []"
    by (simp add: resolve_port_def int_defs)
next
  show "resolve_port e [prog, u ''abc''] = Inl (u ''abc'')"
    by (simp add: resolve_port_def int_defs)
next
  show "resolve_port e [prog, u ''+ 8''] = Inl (u ''+ 8'')"
    by (simp add: resolve_port_def int_defs)
next
  show "resolve_port e [prog, u ''8 000''] = Inl (u ''8 000'')"
    by (simp add: resolve_port_def int_defs)
next
  show "resolve_port e [prog, u ''_8''] = Inl (u ''_8'')"
    by (simp add: resolve_port_def int_defs)
next
  show "resolve_port e [prog, u ''8_''] = Inl (u ''8_'')"
    by (simp add: resolve_port_def int_defs)
next
  show "resolve_port e [prog, u ''8__0''] = Inl (u ''8__0'')"
    by (simp add: resolve_port_def int_defs)
next
  show "resolve_port e [prog, u ''--5''] = Inl (u ''--5'')"
    by (simp add: resolve_port_def int_defs)
next
  show "resolve_port e [prog, u ''80.0''] = Inl (u ''80.0'')"
    by (simp add: resolve_port_def int_defs)
next
  assume "list_all is_digit g \<and> 640 < length g
        \<and> 0 < int_max_str_digits e \<and> int_max_str_digits e < length g"
  then have "py_int e g = None" by (intro py_int_over_limit) simp_all
  then show "resolve_port e [prog, g] = Inl g" by (simp add: resolve_port_def)
next
  assume "1 < length argv \<and> py_int e (argv ! 1) = None"
  then have r: "resolve_port e argv = Inl (argv ! 1)" by (simp add: resolve_port_arg)
  show "chdirs (trace (main e argv evs)) = []" by (simp add: main_invalid [OF r])
  show "bind_calls (trace (main e argv evs)) = []" by (simp add: main_invalid [OF r])
  show "Socket_open \<notin> set (trace (main e argv evs))" by (simp add: main_invalid [OF r])
qed

theorem invalid_port_exit_iff_int_raises_witness:
  "1 < length [u ''serve.py'', u ''80a'']
   \<and> py_int example_env ([u ''serve.py'', u ''80a''] ! 1) = None
   \<and> (trace (main example_env [u ''serve.py'', u ''80a''] [Interrupt])
         = [Print (u ''Invalid port number: '' @ [u ''serve.py'', u ''80a''] ! 1)]
        \<or> trace (main example_env [u ''serve.py'', u ''80a''] [Interrupt])
         = [Traceback UnicodeEncodeError])
   \<and> exit_status (main example_env [u ''serve.py'', u ''80a''] [Interrupt]) = Some 1
   \<and> chdirs (trace (main example_env [u ''serve.py'', u ''80a''] [Interrupt])) = []
   \<and> list_all (int_space example_env) [160, 9]
   \<and> list_all (int_space example_env) [133]
   \<and> list_all (\<lambda>g. g \<noteq> [] \<and> list_all (\<lambda>c. int_decimal example_env c \<noteq> None) g)
        [[56], [1632, 48]]
   \<and> resolve_port example_env
        [u ''serve.py'', [160, 9] @ [45] @ join_groups [[56], [1632, 48]] @ [133]]
       = Inr (- 800)
   \<and> resolve_port example_env [u ''serve.py'', u '' 8000 ''] = Inr 8000"
proof -
  let ?argv = "[u ''serve.py'', u ''80a'']"
  let ?gs = "[[56], [1632, 48]] :: str list"
  have a: "1 < length ?argv" by simp
  have b: "py_int example_env (?argv ! 1) = None"
    by (simp add: int_defs)
  have c: "list_all (int_space example_env) [160, 9]"
    and d: "list_all (int_space example_env) [133]"
    and f: "list_all (\<lambda>g. g \<noteq> [] \<and> list_all (\<lambda>c. int_decimal example_env c \<noteq> None) g) ?gs"
    by (simp_all add: int_space_def int_decimal_def Py_ISSPACE_def is_digit_def example_env_def)
  have s: "[45] = [] \<or> [45] = [43] \<or> [45] = [45::nat]" by simp
  have n: "?gs \<noteq> []" by simp
  have l: "length (concat ?gs) \<le> 640 \<or> int_max_str_digits example_env = 0
           \<or> length (concat ?gs) \<le> int_max_str_digits example_env" by simp
  have v: "(if [45] = [45::nat] then - 1 else 1)
           * int (horner_sum id 10 (rev (map (the \<circ> int_decimal example_env) (concat ?gs))))
           = - 800"
    by (simp add: int_decimal_def is_digit_def example_env_def)
  note t = invalid_port_exit_iff_int_raises
         [of example_env ?argv "[Interrupt]" "[160, 9]" "[133]" "[45]" ?gs "u ''serve.py''"]
  from t a b have 1: "(trace (main example_env ?argv [Interrupt])
         = [Print (u ''Invalid port number: '' @ ?argv ! 1)]
        \<or> trace (main example_env ?argv [Interrupt]) = [Traceback UnicodeEncodeError])
      \<and> exit_status (main example_env ?argv [Interrupt]) = Some 1"
    by blast
  from t a b have 2: "chdirs (trace (main example_env ?argv [Interrupt])) = []"
    by blast
  from t c d s n f l have "resolve_port example_env
        [u ''serve.py'', [160, 9] @ [45] @ join_groups ?gs @ [133]]
       = Inr ((if [45] = [45::nat] then - 1 else 1)
           * int (horner_sum id 10 (rev (map (the \<circ> int_decimal example_env) (concat ?gs)))))"
    by blast
  then have 3: "resolve_port example_env
        [u ''serve.py'', [160, 9] @ [45] @ join_groups ?gs @ [133]] = Inr (- 800)"
    by (simp only: v)
  from t have 4: "resolve_port example_env [u ''serve.py'', u '' 8000 ''] = Inr 8000"
    by blast
  from a b 1 2 c d f 3 4 show ?thesis by blast
qed

end
